theory Spec2Isabelle
  imports Main "HOL-Library.Word"
begin

section \<open>Levels\<close>

text \<open>
  \<^verbatim>\<open>Level\<close> is read and written through \<^verbatim>\<open>(*uint32)(&logger.ConsoleLevel)\<close>
  in the logger, so it is an unsigned 32-bit integer; comparisons are unsigned.
\<close>

type_synonym Level = "32 word"

text \<open>
  Modelled from the spec: the level constants and \<^verbatim>\<open>AllLevels\<close> are declared in a file
  that is not part of the sources. The spec fixes the total order
  Panic < Fatal < Error < Warn < Info < Debug < Trace, higher values being more verbose;
  the constants are numbered from 0 in that order and \<^verbatim>\<open>AllLevels\<close> lists all of them.
\<close>

definition PanicLevel :: Level where "PanicLevel = 0"
definition FatalLevel :: Level where "FatalLevel = 1"
definition ErrorLevel :: Level where "ErrorLevel = 2"
definition WarnLevel :: Level where "WarnLevel = 3"
definition InfoLevel :: Level where "InfoLevel = 4"
definition DebugLevel :: Level where "DebugLevel = 5"
definition TraceLevel :: Level where "TraceLevel = 6"

definition AllLevels :: "Level list" where
  "AllLevels = [PanicLevel, FatalLevel, ErrorLevel, WarnLevel, InfoLevel, DebugLevel, TraceLevel]"

section \<open>Formatters and entries\<close>

text \<open>Go strings and byte slices are byte sequences; \<^typ>\<open>string\<close> is a list of 8-bit characters.\<close>

type_synonym bytes = string

datatype error = Err string

text \<open>
  \<^verbatim>\<open>TextFormatter\<close> is declared outside the sources; the hook reads and writes only its
  \<^verbatim>\<open>DisableColors\<close> field.
\<close>

record TextFormatter =
  DisableColors :: bool

record SimpleFormatter =
  Colored :: bool

text \<open>
  A value of the interface \<^verbatim>\<open>Formatter\<close>: nil, a pointer to a \<^verbatim>\<open>TextFormatter\<close>, a pointer to a
  \<^verbatim>\<open>SimpleFormatter\<close>, or a value of some other implementing type, named by a number. The
  pointers are modelled by the structs they point to: the model does not follow what else
  shares a formatter.
\<close>

datatype Formatter =
    NilFormatter
  | TextFormatterPtr TextFormatter
  | SimpleFormatterPtr SimpleFormatter
  | OtherFormatter nat

text \<open>\<^verbatim>\<open>runtime.Frame\<close> as the formatter reads it; \<open>Func = None\<close> is a nil \<^verbatim>\<open>*runtime.Func\<close>,
  \<open>Some name\<close> one whose \<^verbatim>\<open>Name()\<close> is \<open>name\<close>.\<close>

record Frame =
  File :: string
  Line :: int
  Func :: "string option"

text \<open>
  The fields of \<^verbatim>\<open>Entry\<close> that the sources touch. \<open>Logger_ReportCaller\<close> is what
  \<^verbatim>\<open>entry.Logger.ReportCaller\<close> reads through the back-reference; \<open>Buffer\<close> is the address of
  the attached \<^verbatim>\<open>*bytes.Buffer\<close> (\<open>None\<close> is nil); \<open>Time\<close> is an instant, rendered by the
  standard library.
\<close>

record Entry =
  Logger_ReportCaller :: bool
  Data :: "(string \<times> string) list"
  Time :: int
  Level :: Level
  Caller :: "Frame option"
  Message :: string
  Buffer :: "nat option"
  ConsoleLevel :: Level
  HookLevel :: Level

section \<open>The logger\<close>

text \<open>
  What a call into the logger can do: return, end the process with a status (as \<^verbatim>\<open>os.Exit\<close>
  does), or raise a Go panic. The world of the logger is the sequence of calls it has made
  into its collaborators: an entry's \<^verbatim>\<open>Log\<close>, \<^verbatim>\<open>Logf\<close> or \<^verbatim>\<open>Logln\<close> that delivered a record,
  \<^verbatim>\<open>runHandlers()\<close>, and the exit function, recorded with its status as it is entered.
\<close>

datatype message =
    Log "string list"
  | Logf string "string list"
  | Logln "string list"

datatype event =
    EntryLogged Level message
  | HandlersRun
  | ExitFuncCalled int

type_synonym trace = "event list"

datatype 'a outcome =
    Returned 'a
  | Exited int trace
  | Panicked string trace

type_synonym exitFunc = "int \<Rightarrow> trace \<Rightarrow> trace outcome"

text \<open>\<^verbatim>\<open>os.Exit(code)\<close> of the standard library: the process ends with that status.\<close>

definition os_Exit :: exitFunc where
  "os_Exit code w = Exited code w"

text \<open>
  The fields of \<^verbatim>\<open>Logger\<close> used by the functions below. \<open>LConsoleLevel\<close> and \<open>LHookLevel\<close>
  are its fields \<^verbatim>\<open>ConsoleLevel\<close> and \<^verbatim>\<open>HookLevel\<close>, named apart from those of an entry.
  \<open>ExitFunc = None\<close> is a nil function value. \<open>entryPool\<close> holds the released entries;
  \<^verbatim>\<open>sync.Pool.Get\<close> hands back one of them or nothing, and the model hands back the most
  recently released one.
\<close>

record Logger =
  Formatter :: Formatter
  ReportCaller :: bool
  LConsoleLevel :: Level
  LHookLevel :: Level
  entryPool :: "Entry list"
  ExitFunc :: "exitFunc option"

definition New :: Logger where
  "New = \<lparr> Formatter = SimpleFormatterPtr \<lparr> Colored = True \<rparr>,
           ReportCaller = True,
           LConsoleLevel = DebugLevel,
           LHookLevel = DebugLevel,
           entryPool = [],
           ExitFunc = Some os_Exit \<rparr>"

definition consoleLevel :: "Logger \<Rightarrow> Level" where
  "consoleLevel logger = LConsoleLevel logger"

definition hookLevel :: "Logger \<Rightarrow> Level" where
  "hookLevel logger = LHookLevel logger"

text \<open>\<^verbatim>\<open>SetLevel(levels ...Level)\<close>: the variadic arguments are a list.\<close>

definition SetLevel :: "Logger \<Rightarrow> Level list \<Rightarrow> Logger" where
  "SetLevel logger levels =
     (let logger1 = (if length levels > 0
                     then logger\<lparr> LConsoleLevel := levels ! 0, LHookLevel := levels ! 0 \<rparr>
                     else logger)
      in if length levels > 1 then logger1\<lparr> LHookLevel := levels ! 1 \<rparr> else logger1)"

definition GetLevel :: "Logger \<Rightarrow> Level" where
  "GetLevel logger = consoleLevel logger"

definition IsLevelEnabled :: "Logger \<Rightarrow> Level \<Rightarrow> bool" where
  "IsLevelEnabled logger level \<longleftrightarrow> consoleLevel logger \<ge> level \<or> hookLevel logger \<ge> level"

subsection \<open>Entries and the pool\<close>

text \<open>
  Modelled from the spec: \<^verbatim>\<open>NewEntry\<close> is declared in a file that is not part of the sources.
  The spec describes an entry freshly allocated for the logger, with an empty field mapping;
  the fields the spec does not mention hold Go's zero values.
\<close>

definition NewEntry :: "Logger \<Rightarrow> Entry" where
  "NewEntry logger =
     \<lparr> Logger_ReportCaller = ReportCaller logger, Data = [], Time = 0, Level = 0,
       Caller = None, Message = [], Buffer = None, ConsoleLevel = 0, HookLevel = 0 \<rparr>"

definition newEntry :: "Logger \<Rightarrow> Entry \<times> Logger" where
  "newEntry logger =
     (case entryPool logger of
        entry # rest \<Rightarrow>
          (entry\<lparr> ConsoleLevel := LConsoleLevel logger, HookLevel := LHookLevel logger \<rparr>,
           logger\<lparr> entryPool := rest \<rparr>)
      | [] \<Rightarrow> (NewEntry logger, logger))"

definition releaseEntry :: "Logger \<Rightarrow> Entry \<Rightarrow> Logger" where
  "releaseEntry logger entry = logger\<lparr> entryPool := entry\<lparr> Data := [] \<rparr> # entryPool logger \<rparr>"

text \<open>
  Modelled from the spec: \<^verbatim>\<open>Entry.Log\<close>, \<^verbatim>\<open>Entry.Logf\<close> and \<^verbatim>\<open>Entry.Logln\<close> are declared in a
  file that is not part of the sources. The spec describes a terminal method of an entry as
  a no-op when the combined logger threshold does not admit the level, and otherwise as
  delivering the record (write errors are swallowed, every hook is attempted) and returning
  normally, at Panic level too. The delivery is recorded as one event carrying the level and
  the message operands in their construction style.
\<close>

definition Entry_Log :: "Logger \<Rightarrow> Entry \<Rightarrow> Level \<Rightarrow> message \<Rightarrow> trace \<Rightarrow> trace outcome" where
  "Entry_Log logger entry level m w =
     (if IsLevelEnabled logger level then Returned (w @ [EntryLogged level m]) else Returned w)"

text \<open>
  Modelled from the spec: \<^verbatim>\<open>runHandlers\<close> is declared in a file that is not part of the
  sources; it runs the cleanup handlers registered for process exit.
\<close>

definition runHandlers :: "trace \<Rightarrow> trace" where
  "runHandlers w = w @ [HandlersRun]"

subsection \<open>Exit, the Fatal family and the Panic family\<close>

definition Logger_Exit :: "Logger \<Rightarrow> int \<Rightarrow> trace \<Rightarrow> (Logger \<times> trace) outcome" where
  "Logger_Exit logger code w =
     (let w1 = runHandlers w;
          logger1 = (case ExitFunc logger of
                       None \<Rightarrow> logger\<lparr> ExitFunc := Some os_Exit \<rparr>
                     | Some f \<Rightarrow> logger)
      in case ExitFunc logger1 of
           None \<Rightarrow> Panicked ''call of nil func'' w1
         | Some f \<Rightarrow>
             (case f code (w1 @ [ExitFuncCalled code]) of
                Returned w2 \<Rightarrow> Returned (logger1, w2)
              | Exited c w2 \<Rightarrow> Exited c w2
              | Panicked s w2 \<Rightarrow> Panicked s w2))"

text \<open>
  The block every level method of the logger repeats:
  \<^verbatim>\<open>entry := logger.newEntry(); entry.Log(level, args...); logger.releaseEntry(entry)\<close>,
  with \<^verbatim>\<open>Logf\<close> or \<^verbatim>\<open>Logln\<close> in place of \<^verbatim>\<open>Log\<close> according to the message.
\<close>

definition logEntry :: "Logger \<Rightarrow> Level \<Rightarrow> message \<Rightarrow> trace \<Rightarrow> (Logger \<times> trace) outcome" where
  "logEntry logger level m w =
     (case newEntry logger of
        (entry, logger1) \<Rightarrow>
          (case Entry_Log logger1 entry level m w of
             Returned w1 \<Rightarrow> Returned (releaseEntry logger1 entry, w1)
           | Exited c w1 \<Rightarrow> Exited c w1
           | Panicked s w1 \<Rightarrow> Panicked s w1))"

definition andThen ::
  "(Logger \<times> trace) outcome \<Rightarrow> (Logger \<Rightarrow> trace \<Rightarrow> (Logger \<times> trace) outcome)
     \<Rightarrow> (Logger \<times> trace) outcome" where
  "andThen r k =
     (case r of
        Returned (logger, w) \<Rightarrow> k logger w
      | Exited c w \<Rightarrow> Exited c w
      | Panicked s w \<Rightarrow> Panicked s w)"

definition Logger_Fatalf :: "Logger \<Rightarrow> string \<Rightarrow> string list \<Rightarrow> trace \<Rightarrow> (Logger \<times> trace) outcome" where
  "Logger_Fatalf logger format args w =
     andThen (if IsLevelEnabled logger FatalLevel
              then logEntry logger FatalLevel (Logf format args) w
              else Returned (logger, w))
       (\<lambda>logger1 w1. Logger_Exit logger1 1 w1)"

definition Logger_Panicf :: "Logger \<Rightarrow> string \<Rightarrow> string list \<Rightarrow> trace \<Rightarrow> (Logger \<times> trace) outcome" where
  "Logger_Panicf logger format args w =
     (if IsLevelEnabled logger PanicLevel
      then logEntry logger PanicLevel (Logf format args) w
      else Returned (logger, w))"

definition Logger_Fatal :: "Logger \<Rightarrow> string list \<Rightarrow> trace \<Rightarrow> (Logger \<times> trace) outcome" where
  "Logger_Fatal logger args w =
     andThen (if IsLevelEnabled logger FatalLevel
              then logEntry logger FatalLevel (Log args) w
              else Returned (logger, w))
       (\<lambda>logger1 w1. Logger_Exit logger1 1 w1)"

definition Logger_Panic :: "Logger \<Rightarrow> string list \<Rightarrow> trace \<Rightarrow> (Logger \<times> trace) outcome" where
  "Logger_Panic logger args w =
     (if IsLevelEnabled logger PanicLevel
      then logEntry logger PanicLevel (Log args) w
      else Returned (logger, w))"

text \<open>A \<^verbatim>\<open>LogFunction\<close> is called only when the level is enabled; its result is the operands.\<close>

definition Logger_FatalFn :: "Logger \<Rightarrow> (unit \<Rightarrow> string list) \<Rightarrow> trace \<Rightarrow> (Logger \<times> trace) outcome" where
  "Logger_FatalFn logger fn w =
     andThen (if IsLevelEnabled logger FatalLevel
              then logEntry logger FatalLevel (Log (fn ())) w
              else Returned (logger, w))
       (\<lambda>logger1 w1. Logger_Exit logger1 1 w1)"

definition Logger_PanicFn :: "Logger \<Rightarrow> (unit \<Rightarrow> string list) \<Rightarrow> trace \<Rightarrow> (Logger \<times> trace) outcome" where
  "Logger_PanicFn logger fn w =
     (if IsLevelEnabled logger PanicLevel
      then logEntry logger PanicLevel (Log (fn ())) w
      else Returned (logger, w))"

definition Logger_Fatalln :: "Logger \<Rightarrow> string list \<Rightarrow> trace \<Rightarrow> (Logger \<times> trace) outcome" where
  "Logger_Fatalln logger args w =
     andThen (if IsLevelEnabled logger FatalLevel
              then logEntry logger FatalLevel (Logln args) w
              else Returned (logger, w))
       (\<lambda>logger1 w1. Logger_Exit logger1 1 w1)"

definition Logger_Panicln :: "Logger \<Rightarrow> string list \<Rightarrow> trace \<Rightarrow> (Logger \<times> trace) outcome" where
  "Logger_Panicln logger args w =
     (if IsLevelEnabled logger PanicLevel
      then logEntry logger PanicLevel (Logln args) w
      else Returned (logger, w))"

text \<open>What a call leaves of the world, whichever way it ended, without the logger.\<close>

definition world_of :: "(Logger \<times> trace) outcome \<Rightarrow> trace outcome" where
  "world_of r =
     (case r of
        Returned (logger, w) \<Rightarrow> Returned w
      | Exited c w \<Rightarrow> Exited c w
      | Panicked s w \<Rightarrow> Panicked s w)"

text \<open>The exit function a logger ends up calling: the configured one, or \<^verbatim>\<open>os.Exit\<close> for nil.\<close>

definition effectiveExitFunc :: "Logger \<Rightarrow> exitFunc" where
  "effectiveExitFunc logger = (case ExitFunc logger of None \<Rightarrow> os_Exit | Some f \<Rightarrow> f)"

definition logged :: "Logger \<Rightarrow> Level \<Rightarrow> message \<Rightarrow> trace \<Rightarrow> trace" where
  "logged logger level m w = (if IsLevelEnabled logger level then w @ [EntryLogged level m] else w)"

section \<open>The world of the hook\<close>

text \<open>
  The hook acts on writers and on the file system. Its world is the sequence of calls made
  on them, and the content of every \<^verbatim>\<open>bytes.Buffer\<close> an entry may carry, by address.
  \<open>WriterWrite k p\<close> is \<^verbatim>\<open>Write(p)\<close> on the writer numbered \<open>k\<close>; \<open>MkdirAll_Dir path\<close> is
  \<^verbatim>\<open>os.MkdirAll(filepath.Dir(path), os.ModePerm)\<close>; \<open>OpenFile path\<close> is the call of
  \<^verbatim>\<open>os.OpenFile\<close> on the path; \<open>FileWrite path p\<close> and \<open>FileClose path\<close> are \<^verbatim>\<open>fd.Write(p)\<close> and
  \<^verbatim>\<open>fd.Close()\<close> on the file opened at the path; \<open>LogPrintln\<close> is \<^verbatim>\<open>log.Println\<close> with its
  operands.
\<close>

datatype io_event =
    WriterWrite nat bytes
  | MkdirAll_Dir string
  | OpenFile string
  | FileWrite string bytes
  | FileClose string
  | LogPrintln "string list"

record io_world =
  io_trace :: "io_event list"
  buffers :: "nat \<Rightarrow> bytes"

text \<open>
  What the sources call and do not define, taken as parameters:
  \<^item> \<open>time_Format t\<close> is \<^verbatim>\<open>t.Format("2006-01-02 15:04:05.000")\<close> of the standard library;
  \<^item> \<open>Level_String\<close> is \<^verbatim>\<open>Level.String()\<close>, declared outside the sources;
  \<^item> \<open>other_Format\<close> is \<^verbatim>\<open>Format\<close> of every formatter type other than \<^verbatim>\<open>SimpleFormatter\<close>;
  \<^item> \<open>writer_Write tr k p\<close> is what \<^verbatim>\<open>Write(p)\<close> returns on the writer numbered \<open>k\<close> (a
    rotating file, or any writer of the caller) after the calls \<open>tr\<close>: a count and an error;
  \<^item> \<open>os_OpenFile path\<close> is the error of
    \<^verbatim>\<open>os.OpenFile(path, os.O_WRONLY|os.O_APPEND|os.O_CREATE, 0666)\<close>, if any.
\<close>

record env =
  time_Format :: "int \<Rightarrow> string"
  Level_String :: "Level \<Rightarrow> string"
  other_Format :: "Formatter \<Rightarrow> Entry \<Rightarrow> bytes \<times> error option"
  writer_Write :: "io_event list \<Rightarrow> nat \<Rightarrow> bytes \<Rightarrow> nat \<times> error option"
  os_OpenFile :: "string \<Rightarrow> error option"

text \<open>A call returns a value or raises a Go panic with a message.\<close>

datatype 'a result =
    Return 'a
  | Panic string

section \<open>SimpleFormatter\<close>

definition ESC :: char where
  "ESC = CHR 0x1B"

definition newline :: char where
  "newline = CHR 0x0A"

text \<open>The \<^verbatim>\<open>switch entry.Level\<close> of \<^verbatim>\<open>Format\<close>; a level outside the seven gets no colour.\<close>

definition levelColor :: "Level \<Rightarrow> string" where
  "levelColor level =
     (if level = TraceLevel \<or> level = DebugLevel then ESC # ''[34;1m''
      else if level = InfoLevel then ESC # ''[32;1m''
      else if level = WarnLevel then ESC # ''[35;1m''
      else if level = ErrorLevel \<or> level = FatalLevel \<or> level = PanicLevel then ESC # ''[31;1m''
      else [])"

text \<open>
  \<^verbatim>\<open>%8s\<close> pads on the left with spaces to width 8. Go counts the width in runes; the model
  counts bytes, which is the same for the ASCII names of levels.
\<close>

definition pad_left :: "nat \<Rightarrow> string \<Rightarrow> string" where
  "pad_left n s = replicate (n - length s) CHR '' '' @ s"

text \<open>\<^verbatim>\<open>%d\<close> of an \<^verbatim>\<open>int\<close>.\<close>

fun digits :: "nat \<Rightarrow> string" where
  "digits n =
     (if n < 10 then [''0123456789'' ! n]
      else digits (n div 10) @ [''0123456789'' ! (n mod 10)])"

declare digits.simps [simp del]

definition itoa :: "int \<Rightarrow> string" where
  "itoa i = (if i < 0 then CHR ''-'' # digits (nat (- i)) else digits (nat i))"

text \<open>\<^verbatim>\<open>filepath.Base\<close> of the standard library, with \<^verbatim>\<open>/\<close> as the separator.\<close>

definition filepath_Base :: "string \<Rightarrow> string" where
  "filepath_Base path =
     (if path = [] then ''.''
      else let stripped = rev (dropWhile (\<lambda>c. c = CHR ''/'') (rev path));
               element = rev (takeWhile (\<lambda>c. c \<noteq> CHR ''/'') (rev stripped))
           in if element = [] then ''/'' else element)"

text \<open>\<^verbatim>\<open>strings.LastIndex(s, ".")\<close>: the index of the last dot, or -1.\<close>

definition LastIndex_dot :: "string \<Rightarrow> int" where
  "LastIndex_dot s =
     (if CHR ''.'' \<in> set s
      then int (length s) - 1 - int (length (takeWhile (\<lambda>c. c \<noteq> CHR ''.'') (rev s)))
      else - 1)"

definition getFuncName :: "string option \<Rightarrow> string" where
  "getFuncName f =
     (case f of
        Some fullFnName \<Rightarrow> (let pos = LastIndex_dot fullFnName in drop (nat (pos + 1)) fullFnName)
      | None \<Rightarrow> [])"

text \<open>
  \<^verbatim>\<open>Format\<close> writes into the buffer attached to the entry, after what the buffer already
  holds, or into a new empty buffer when none is attached, and returns the content of the
  buffer it wrote to, with a nil error.
\<close>

definition SimpleFormatter_Format ::
  "env \<Rightarrow> SimpleFormatter \<Rightarrow> Entry \<Rightarrow> io_world \<Rightarrow> (bytes \<times> error option) \<times> io_world" where
  "SimpleFormatter_Format env f entry w =
     (let b = (case Buffer entry of Some a \<Rightarrow> buffers w a | None \<Rightarrow> []);
          b = (if Colored f then b @ levelColor (Level entry) else b);
          b = b @ ''['' @ time_Format env (Time entry) @ ''] [''
                @ pad_left 8 (Level_String env (Level entry)) @ ''] '';
          b = (case Caller entry of
                 Some caller \<Rightarrow>
                   if Logger_ReportCaller entry
                   then b @ ''[ '' @ filepath_Base (File caller) @ '' : '' @ itoa (Line caller)
                          @ '' '' @ getFuncName (Func caller) @ '' ]''
                   else b
               | None \<Rightarrow> b);
          b = b @ Message entry;
          b = (if Colored f then b @ ESC # ''[0m'' else b);
          b = b @ [newline]
      in ((b, None),
          case Buffer entry of
            Some a \<Rightarrow> w\<lparr> buffers := (buffers w)(a := b) \<rparr>
          | None \<Rightarrow> w))"

text \<open>The bytes one call of \<^verbatim>\<open>Format\<close> appends for an entry: the record it renders.\<close>

definition rendered :: "env \<Rightarrow> SimpleFormatter \<Rightarrow> Entry \<Rightarrow> bytes" where
  "rendered env f entry =
     (if Colored f then levelColor (Level entry) else [])
     @ ''['' @ time_Format env (Time entry) @ ''] [''
     @ pad_left 8 (Level_String env (Level entry)) @ ''] ''
     @ (case Caller entry of
          Some caller \<Rightarrow>
            if Logger_ReportCaller entry
            then ''[ '' @ filepath_Base (File caller) @ '' : '' @ itoa (Line caller)
                   @ '' '' @ getFuncName (Func caller) @ '' ]''
            else []
        | None \<Rightarrow> [])
     @ Message entry
     @ (if Colored f then ESC # ''[0m'' else [])
     @ [newline]"

text \<open>The results of \<open>n\<close> calls of \<^verbatim>\<open>Format\<close> on the same entry, one after the other.\<close>

fun Format_times ::
  "nat \<Rightarrow> env \<Rightarrow> SimpleFormatter \<Rightarrow> Entry \<Rightarrow> io_world \<Rightarrow> bytes list \<times> io_world" where
  "Format_times 0 env f entry w = ([], w)"
| "Format_times (Suc n) env f entry w =
     (case SimpleFormatter_Format env f entry w of
        ((b, err), w1) \<Rightarrow>
          (case Format_times n env f entry w1 of (bs, w2) \<Rightarrow> (b # bs, w2)))"

text \<open>\<^verbatim>\<open>formatter.Format(entry)\<close> on an interface value; on nil the call panics.\<close>

definition Formatter_Format ::
  "env \<Rightarrow> Formatter \<Rightarrow> Entry \<Rightarrow> io_world \<Rightarrow> (bytes \<times> error option) result \<times> io_world" where
  "Formatter_Format env formatter entry w =
     (case formatter of
        NilFormatter \<Rightarrow> (Panic ''nil pointer dereference'', w)
      | SimpleFormatterPtr f \<Rightarrow>
          (case SimpleFormatter_Format env f entry w of (r, w1) \<Rightarrow> (Return r, w1))
      | _ \<Rightarrow> (Return (other_Format env formatter entry), w))"

section \<open>Writers\<close>

text \<open>
  A value of the interface \<^verbatim>\<open>io.Writer\<close>: nil, a writer of its own numbered \<open>k\<close>, or what
  \<^verbatim>\<open>io.MultiWriter\<close> of the standard library returns, which holds a list of writers.
\<close>

datatype Writer =
    NilWriter
  | Sink nat
  | multiWriter "Writer list"

text \<open>\<^verbatim>\<open>io.MultiWriter(writers...)\<close> copies its arguments, a multi-writer among them replaced by
  the writers it holds.\<close>

definition io_MultiWriter :: "Writer list \<Rightarrow> Writer" where
  "io_MultiWriter writers =
     multiWriter (concat (map (\<lambda>w. case w of multiWriter ws \<Rightarrow> ws | _ \<Rightarrow> [w]) writers))"

definition ErrShortWrite :: error where
  "ErrShortWrite = Err ''short write''"

text \<open>
  \<^verbatim>\<open>Write\<close> on a writer. The loop of the standard library's multi-writer is
  \<^verbatim>\<open>for _, w := range t.writers { n, err = w.Write(p); if err != nil { return };
  if n != len(p) { err = ErrShortWrite; return } }; return len(p), nil\<close>.
\<close>

fun Writer_Write ::
    "env \<Rightarrow> Writer \<Rightarrow> bytes \<Rightarrow> io_world \<Rightarrow> (nat \<times> error option) result \<times> io_world"
  and multiWriter_Write ::
    "env \<Rightarrow> Writer list \<Rightarrow> bytes \<Rightarrow> io_world \<Rightarrow> (nat \<times> error option) result \<times> io_world"
where
  "Writer_Write env NilWriter p w = (Panic ''nil pointer dereference'', w)"
| "Writer_Write env (Sink k) p w =
     (Return (writer_Write env (io_trace w) k p), w\<lparr> io_trace := io_trace w @ [WriterWrite k p] \<rparr>)"
| "Writer_Write env (multiWriter ws) p w = multiWriter_Write env ws p w"
| "multiWriter_Write env [] p w = (Return (length p, None), w)"
| "multiWriter_Write env (x # xs) p w =
     (case Writer_Write env x p w of
        (Panic s, w1) \<Rightarrow> (Panic s, w1)
      | (Return (n, Some err), w1) \<Rightarrow> (Return (n, Some err), w1)
      | (Return (n, None), w1) \<Rightarrow>
          if n \<noteq> length p then (Return (n, Some ErrShortWrite), w1)
          else multiWriter_Write env xs p w1)"

section \<open>The local file system hook\<close>

text \<open>
  A \<^verbatim>\<open>PathMap\<close> or \<^verbatim>\<open>WriterMap\<close> is a Go map from levels: \<open>None\<close> is the nil map, \<open>Some kvs\<close> a
  map with the entries \<open>kvs\<close>, listed in the order in which \<^verbatim>\<open>range\<close> visits them.
\<close>

type_synonym PathMap = "(Level \<times> string) list option"
type_synonym WriterMap = "(Level \<times> Writer) list option"

definition mapIndex :: "(Level \<times> 'a) list option \<Rightarrow> Level \<Rightarrow> 'a option" where
  "mapIndex m level = (case m of None \<Rightarrow> None | Some kvs \<Rightarrow> map_of kvs level)"

definition mapKeys :: "(Level \<times> 'a) list option \<Rightarrow> Level list" where
  "mapKeys m = (case m of None \<Rightarrow> [] | Some kvs \<Rightarrow> remdups (map fst kvs))"

text \<open>The fields of \<^verbatim>\<open>LfsHook\<close> but for the mutex, which every method takes and releases.\<close>

record LfsHook =
  paths :: PathMap
  writers :: WriterMap
  levels :: "Level list"
  formatter :: Formatter
  defaultPath :: string
  defaultWriter :: Writer
  hasDefaultPath :: bool
  hasDefaultWriter :: bool

definition defaultFormatter :: TextFormatter where
  "defaultFormatter = \<lparr> DisableColors = True \<rparr>"

definition SetFormatter :: "LfsHook \<Rightarrow> Formatter \<Rightarrow> LfsHook" where
  "SetFormatter hook formatter0 =
     (let formatter1 =
            (if formatter0 = NilFormatter then TextFormatterPtr defaultFormatter
             else case formatter0 of
                    TextFormatterPtr textFormatter \<Rightarrow>
                      TextFormatterPtr (textFormatter\<lparr> DisableColors := True \<rparr>)
                  | _ \<Rightarrow> formatter0)
      in hook\<lparr> formatter := formatter1 \<rparr>)"

definition SetDefaultPath :: "LfsHook \<Rightarrow> string \<Rightarrow> LfsHook" where
  "SetDefaultPath hook path = hook\<lparr> defaultPath := path, hasDefaultPath := True \<rparr>"

definition SetDefaultWriter :: "LfsHook \<Rightarrow> Writer \<Rightarrow> LfsHook" where
  "SetDefaultWriter hook writer = hook\<lparr> defaultWriter := writer, hasDefaultWriter := True \<rparr>"

text \<open>
  The dynamic value of the \<^verbatim>\<open>interface{}\<close> argument of the constructor, by the case of the
  type switch it reaches: a string, a value whose type implements \<^verbatim>\<open>io.Writer\<close>, a
  \<^verbatim>\<open>PathMap\<close>, a \<^verbatim>\<open>WriterMap\<close>, or a value of any other type, given by what
  \<^verbatim>\<open>reflect.TypeOf\<close> prints for it (\<^verbatim>\<open><nil>\<close> for the nil interface).
\<close>

datatype hook_output =
    OutString string
  | OutWriter Writer
  | OutPathMap PathMap
  | OutWriterMap WriterMap
  | OutOther string

definition NewLocalFileSystemHook :: "hook_output \<Rightarrow> Formatter \<Rightarrow> LfsHook result" where
  "NewLocalFileSystemHook out formatter0 =
     (let hook = SetFormatter
                   \<lparr> paths = None, writers = None, levels = [], formatter = NilFormatter,
                     defaultPath = [], defaultWriter = NilWriter,
                     hasDefaultPath = False, hasDefaultWriter = False \<rparr>
                   formatter0
      in case out of
           OutString s \<Rightarrow> Return (SetDefaultPath hook s)
         | OutWriter writer \<Rightarrow> Return (SetDefaultWriter hook writer)
         | OutPathMap m \<Rightarrow> Return (hook\<lparr> paths := m, levels := levels hook @ mapKeys m \<rparr>)
         | OutWriterMap m \<Rightarrow> Return (hook\<lparr> writers := m, levels := levels hook @ mapKeys m \<rparr>)
         | OutOther ty \<Rightarrow> Panic (''unsupported level map type: '' @ ty))"

definition error_text :: "error \<Rightarrow> string" where
  "error_text e = (case e of Err s \<Rightarrow> s)"

definition record_io :: "io_world \<Rightarrow> io_event list \<Rightarrow> io_world" where
  "record_io w evs = w\<lparr> io_trace := io_trace w @ evs \<rparr>"

definition ioWrite :: "env \<Rightarrow> LfsHook \<Rightarrow> Entry \<Rightarrow> io_world \<Rightarrow> error option result \<times> io_world" where
  "ioWrite env hook entry w =
     (let found = mapIndex (writers hook) (Level entry)
      in if found = None \<and> \<not> hasDefaultWriter hook then (Return None, w)
         else
           let writer = (case found of Some x \<Rightarrow> x | None \<Rightarrow> defaultWriter hook)
           in case Formatter_Format env (formatter hook) entry w of
                (Panic s, w1) \<Rightarrow> (Panic s, w1)
              | (Return (msg, Some err), w1) \<Rightarrow>
                  (Return (Some err),
                   record_io w1 [LogPrintln [''failed to generate string for entry:'', error_text err]])
              | (Return (msg, None), w1) \<Rightarrow>
                  (case Writer_Write env writer msg w1 of
                     (Panic s, w2) \<Rightarrow> (Panic s, w2)
                   | (Return (n, err), w2) \<Rightarrow> (Return err, w2)))"

text \<open>The results of \<^verbatim>\<open>os.MkdirAll\<close> and of \<^verbatim>\<open>fd.Write\<close> are dropped by the source; the deferred
  \<^verbatim>\<open>fd.Close()\<close> runs on every way out once the file is open.\<close>

definition fileWrite :: "env \<Rightarrow> LfsHook \<Rightarrow> Entry \<Rightarrow> io_world \<Rightarrow> error option result \<times> io_world" where
  "fileWrite env hook entry w =
     (let found = mapIndex (paths hook) (Level entry)
      in if found = None \<and> \<not> hasDefaultPath hook then (Return None, w)
         else
           let path = (case found of Some x \<Rightarrow> x | None \<Rightarrow> defaultPath hook);
               w1 = record_io w [MkdirAll_Dir path, OpenFile path]
           in case os_OpenFile env path of
                Some err \<Rightarrow>
                  (Return (Some err),
                   record_io w1 [LogPrintln [''failed to open logfile:'', path, error_text err]])
              | None \<Rightarrow>
                  (case Formatter_Format env (formatter hook) entry w1 of
                     (Panic s, w2) \<Rightarrow> (Panic s, record_io w2 [FileClose path])
                   | (Return (msg, Some err), w2) \<Rightarrow>
                       (Return (Some err),
                        record_io w2
                          [LogPrintln [''failed to generate string for entry:'', error_text err],
                           FileClose path])
                   | (Return (msg, None), w2) \<Rightarrow>
                       (Return None, record_io w2 [FileWrite path msg, FileClose path])))"

definition Fire :: "env \<Rightarrow> LfsHook \<Rightarrow> Entry \<Rightarrow> io_world \<Rightarrow> error option result \<times> io_world" where
  "Fire env hook entry w =
     (if writers hook \<noteq> None \<or> hasDefaultWriter hook then ioWrite env hook entry w
      else if paths hook \<noteq> None \<or> hasDefaultPath hook then fileWrite env hook entry w
      else (Return None, w))"

definition Levels :: "LfsHook \<Rightarrow> Level list" where
  "Levels hook = AllLevels"






text \<open>
  \<^verbatim>\<open>ConfigLocalFileSystemLogger\<close> up to the hook it hands to \<^verbatim>\<open>AddHook\<close>. The five writers are
  what \<^verbatim>\<open>createFileLogger\<close> obtained from the rotation library for "debug", "info", "warn",
  "error" and the level-less common file. The sources hold the function twice, in the hook's
  package and in the logger's; both build this writer map with a \<^verbatim>\<open>SimpleFormatter{}\<close>.
\<close>

definition ConfigLocalFileSystemLogger ::
  "Writer \<Rightarrow> Writer \<Rightarrow> Writer \<Rightarrow> Writer \<Rightarrow> Writer \<Rightarrow> LfsHook result" where
  "ConfigLocalFileSystemLogger debugWriter infoWriter warnWriter errorWriter commonWriter =
     (let multiErrorWriter = io_MultiWriter [errorWriter, commonWriter]
      in NewLocalFileSystemHook
           (OutWriterMap (Some
              [(DebugLevel, io_MultiWriter [debugWriter, commonWriter]),
               (InfoLevel, io_MultiWriter [infoWriter, commonWriter]),
               (WarnLevel, io_MultiWriter [warnWriter, commonWriter]),
               (ErrorLevel, multiErrorWriter),
               (FatalLevel, multiErrorWriter),
               (PanicLevel, multiErrorWriter)]))
           (SimpleFormatterPtr \<lparr> Colored = False \<rparr>))"

text \<open>
  Modelled from the spec: the hook registry \<^verbatim>\<open>LevelHooks\<close> and its \<^verbatim>\<open>Add\<close> are declared in a
  file that is not part of the sources. The spec describes a mapping from a level to the
  sequence of hooks registered for it, and \<^verbatim>\<open>Add(hook)\<close> as appending the hook to the sequence
  of each level that \<^verbatim>\<open>hook.Levels()\<close> returns.
\<close>

definition LevelHooks_Add :: "(Level \<Rightarrow> LfsHook list) \<Rightarrow> LfsHook \<Rightarrow> (Level \<Rightarrow> LfsHook list)" where
  "LevelHooks_Add hooks hook = fold (\<lambda>level hs. hs(level := hs level @ [hook])) (Levels hook) hooks"

section \<open>Concrete inputs\<close>

text \<open>An environment in which every write and every open succeeds.\<close>

definition example_env :: env where
  "example_env =
     \<lparr> time_Format = (\<lambda>t. ''2024-01-02 03:04:05.000''),
       Level_String = (\<lambda>level. if level = InfoLevel then ''info''
                               else if level = ErrorLevel then ''error'' else ''unknown''),
       other_Format = (\<lambda>formatter entry. ([], None)),
       writer_Write = (\<lambda>tr k p. (length p, None)),
       os_OpenFile = (\<lambda>path. None) \<rparr>"

text \<open>The same environment, but every write on the writer numbered 3 fails.\<close>

definition failing_env :: env where
  "failing_env =
     example_env\<lparr> writer_Write :=
       (\<lambda>tr k p. if k = 3 then (0, Some (Err ''disk full'')) else (length p, None)) \<rparr>"

definition empty_world :: io_world where
  "empty_world = \<lparr> io_trace = [], buffers = (\<lambda>a. []) \<rparr>"

text \<open>An entry at Info level with the message "hello", a fixed time and a fixed caller, and no
  buffer attached.\<close>

definition example_entry :: Entry where
  "example_entry =
     \<lparr> Logger_ReportCaller = True, Data = [], Time = 0, Level = InfoLevel,
       Caller = Some \<lparr> File = ''/src/app/main.go'', Line = 42, Func = Some ''main.run'' \<rparr>,
       Message = ''hello'', Buffer = None, ConsoleLevel = DebugLevel, HookLevel = DebugLevel \<rparr>"

text \<open>The hook that \<^verbatim>\<open>ConfigLocalFileSystemLogger\<close> builds from the writers numbered 0 to 4.\<close>

definition example_config_hook :: LfsHook where
  "example_config_hook =
     \<lparr> paths = None,
       writers = Some [(DebugLevel, multiWriter [Sink 0, Sink 4]),
                       (InfoLevel, multiWriter [Sink 1, Sink 4]),
                       (WarnLevel, multiWriter [Sink 2, Sink 4]),
                       (ErrorLevel, multiWriter [Sink 3, Sink 4]),
                       (FatalLevel, multiWriter [Sink 3, Sink 4]),
                       (PanicLevel, multiWriter [Sink 3, Sink 4])],
       levels = [DebugLevel, InfoLevel, WarnLevel, ErrorLevel, FatalLevel, PanicLevel],
       formatter = SimpleFormatterPtr \<lparr> Colored = False \<rparr>,
       defaultPath = [], defaultWriter = NilWriter,
       hasDefaultPath = False, hasDefaultWriter = False \<rparr>"


text \<open>A hook built from a path map for Info alone.\<close>

definition info_path_hook :: LfsHook where
  "info_path_hook =
     \<lparr> paths = Some [(InfoLevel, ''/var/log/info.log'')], writers = None, levels = [InfoLevel],
       formatter = SimpleFormatterPtr \<lparr> Colored = False \<rparr>,
       defaultPath = [], defaultWriter = NilWriter,
       hasDefaultPath = False, hasDefaultWriter = False \<rparr>"

section \<open>Thresholds\<close>

lemmas Level_defs =
  PanicLevel_def FatalLevel_def ErrorLevel_def WarnLevel_def InfoLevel_def DebugLevel_def
  TraceLevel_def

text \<open>
  C1. For every logger and every level L, \<^verbatim>\<open>IsLevelEnabled(L)\<close> is true exactly when the
  console threshold is numerically at least L or the hook threshold is numerically at least
  L, the numbers being the unsigned values of the levels (higher is more verbose).
\<close>

theorem IsLevelEnabled_iff:
  "IsLevelEnabled logger L \<longleftrightarrow>
     unat (LConsoleLevel logger) \<ge> unat L \<or> unat (LHookLevel logger) \<ge> unat L"
  by (simp add: IsLevelEnabled_def consoleLevel_def hookLevel_def word_le_nat_alt)

theorem IsLevelEnabled_iff_witness:
  "IsLevelEnabled (SetLevel New [WarnLevel, DebugLevel]) InfoLevel
   \<and> \<not> IsLevelEnabled (SetLevel New [WarnLevel, ErrorLevel]) InfoLevel"
  using IsLevelEnabled_iff [of "SetLevel New [WarnLevel, DebugLevel]" InfoLevel]
        IsLevelEnabled_iff [of "SetLevel New [WarnLevel, ErrorLevel]" InfoLevel]
  by (simp add: SetLevel_def New_def Level_defs)

text \<open>
  C8. \<^verbatim>\<open>SetLevel(c)\<close> sets the console and the hook threshold to c, \<^verbatim>\<open>SetLevel(c, h)\<close> sets the
  console threshold to c and the hook threshold to h, and \<^verbatim>\<open>SetLevel()\<close> leaves both as they
  were.
\<close>

theorem SetLevel_thresholds:
  "consoleLevel (SetLevel logger [c]) = c \<and> hookLevel (SetLevel logger [c]) = c
   \<and> consoleLevel (SetLevel logger [c, h]) = c \<and> hookLevel (SetLevel logger [c, h]) = h
   \<and> SetLevel logger [] = logger"
  by (simp add: SetLevel_def consoleLevel_def hookLevel_def)

theorem SetLevel_thresholds_witness:
  "consoleLevel (SetLevel New [WarnLevel]) = WarnLevel
   \<and> hookLevel (SetLevel New [WarnLevel]) = WarnLevel
   \<and> consoleLevel (SetLevel New [WarnLevel, DebugLevel]) = WarnLevel
   \<and> hookLevel (SetLevel New [WarnLevel, DebugLevel]) = DebugLevel
   \<and> SetLevel New [] = New"
  using SetLevel_thresholds [of New WarnLevel DebugLevel] by simp

section \<open>Exit on Fatal, return on Panic\<close>

lemma IsLevelEnabled_newEntry:
  "IsLevelEnabled (snd (newEntry logger)) level = IsLevelEnabled logger level"
  by (simp add: newEntry_def IsLevelEnabled_def consoleLevel_def hookLevel_def split: list.split)

lemma ExitFunc_newEntry: "ExitFunc (snd (newEntry logger)) = ExitFunc logger"
  by (simp add: newEntry_def split: list.split)

lemma logEntry_Returned:
  "\<exists>logger1. logEntry logger level m w = Returned (logger1, logged logger level m w)
     \<and> ExitFunc logger1 = ExitFunc logger"
proof (cases "newEntry logger")
  case (Pair entry logger0)
  then have "IsLevelEnabled logger0 level = IsLevelEnabled logger level"
    and "ExitFunc logger0 = ExitFunc logger"
    using IsLevelEnabled_newEntry [of logger level] ExitFunc_newEntry [of logger] by simp_all
  with Pair show ?thesis
    by (simp add: logEntry_def Entry_Log_def logged_def releaseEntry_def)
qed

lemma admitted_Returned:
  "\<exists>logger1. (if IsLevelEnabled logger level then logEntry logger level m w
               else Returned (logger, w))
       = Returned (logger1, logged logger level m w)
     \<and> ExitFunc logger1 = ExitFunc logger"
proof (cases "IsLevelEnabled logger level")
  case True
  then show ?thesis using logEntry_Returned [of logger level m w] by simp
next
  case False
  then show ?thesis by (simp add: logged_def)
qed

lemma world_of_Exit:
  "world_of (Logger_Exit logger code w)
     = effectiveExitFunc logger code (w @ [HandlersRun, ExitFuncCalled code])"
  by (cases "ExitFunc logger")
     (simp_all add: Logger_Exit_def world_of_def effectiveExitFunc_def runHandlers_def
        split: outcome.split)

lemma admitted_then_Exit:
  "world_of (andThen (if IsLevelEnabled logger level then logEntry logger level m w
                      else Returned (logger, w))
               (\<lambda>logger1 w1. Logger_Exit logger1 code w1))
     = effectiveExitFunc logger code (logged logger level m w @ [HandlersRun, ExitFuncCalled code])"
proof -
  obtain logger1 where
    r: "(if IsLevelEnabled logger level then logEntry logger level m w else Returned (logger, w))
          = Returned (logger1, logged logger level m w)"
    and e: "ExitFunc logger1 = ExitFunc logger"
    using admitted_Returned [of logger level m w] by blast
  have "effectiveExitFunc logger1 = effectiveExitFunc logger"
    using e by (simp add: effectiveExitFunc_def)
  then show ?thesis
    by (simp only: r andThen_def outcome.case prod.case world_of_Exit)
qed

text \<open>
  C2. Each of \<^verbatim>\<open>Fatal\<close>, \<^verbatim>\<open>Fatalf\<close>, \<^verbatim>\<open>Fatalln\<close> and \<^verbatim>\<open>FatalFn\<close> ends in \<^verbatim>\<open>Exit(1)\<close>: the exit
  handlers are run, then the exit function is called with status 1, on the world in which
  the entry was logged if the level was enabled and on the unchanged world if it was not.
  The exit function is the configured one, and \<^verbatim>\<open>os.Exit\<close> when none is configured, which
  ends the process with status 1.
\<close>

theorem Fatal_family_calls_Exit:
  "world_of (Logger_Fatal logger args w)
     = effectiveExitFunc logger 1
         (logged logger FatalLevel (Log args) w @ [HandlersRun, ExitFuncCalled 1])
   \<and> world_of (Logger_Fatalf logger format args w)
     = effectiveExitFunc logger 1
         (logged logger FatalLevel (Logf format args) w @ [HandlersRun, ExitFuncCalled 1])
   \<and> world_of (Logger_Fatalln logger args w)
     = effectiveExitFunc logger 1
         (logged logger FatalLevel (Logln args) w @ [HandlersRun, ExitFuncCalled 1])
   \<and> world_of (Logger_FatalFn logger fn w)
     = effectiveExitFunc logger 1
         (logged logger FatalLevel (Log (fn ())) w @ [HandlersRun, ExitFuncCalled 1])
   \<and> (\<not> IsLevelEnabled logger FatalLevel \<longrightarrow> logged logger FatalLevel m w = w)
   \<and> (ExitFunc logger = None \<longrightarrow> effectiveExitFunc logger 1 w' = Exited 1 w')"
  unfolding Logger_Fatal_def Logger_Fatalf_def Logger_Fatalln_def Logger_FatalFn_def
  by (simp add: admitted_then_Exit logged_def effectiveExitFunc_def os_Exit_def)

theorem Fatal_family_calls_Exit_witness:
  "\<not> IsLevelEnabled (SetLevel (New\<lparr> ExitFunc := None \<rparr>) [PanicLevel]) FatalLevel
   \<and> ExitFunc (SetLevel (New\<lparr> ExitFunc := None \<rparr>) [PanicLevel]) = None
   \<and> world_of (Logger_Fatal (SetLevel (New\<lparr> ExitFunc := None \<rparr>) [PanicLevel]) [''disk full''] [])
       = Exited 1 [HandlersRun, ExitFuncCalled 1]"
proof -
  let ?l = "SetLevel (New\<lparr> ExitFunc := None \<rparr>) [PanicLevel]"
  have a: "\<not> IsLevelEnabled ?l FatalLevel"
    by (simp add: IsLevelEnabled_def consoleLevel_def hookLevel_def SetLevel_def New_def Level_defs)
  have b: "ExitFunc ?l = None"
    by (simp add: SetLevel_def New_def)
  show ?thesis
    using a b Fatal_family_calls_Exit [of ?l "[''disk full'']" "[]" _ _ "Log [''disk full'']"
        "[HandlersRun, ExitFuncCalled 1]"]
    by simp
qed

text \<open>
  C3. Each of \<^verbatim>\<open>Panic\<close>, \<^verbatim>\<open>Panicf\<close>, \<^verbatim>\<open>Panicln\<close> and \<^verbatim>\<open>PanicFn\<close> returns normally, on the world
  in which the entry was logged if the level was enabled: it neither ends the process nor
  raises a Go panic, and neither the exit handlers nor the exit function are called. The
  Panic level is the lowest, so it is always enabled and the entry is always logged.
\<close>

theorem Panic_family_returns:
  "world_of (Logger_Panic logger args w) = Returned (logged logger PanicLevel (Log args) w)
   \<and> world_of (Logger_Panicf logger format args w)
       = Returned (logged logger PanicLevel (Logf format args) w)
   \<and> world_of (Logger_Panicln logger args w) = Returned (logged logger PanicLevel (Logln args) w)
   \<and> world_of (Logger_PanicFn logger fn w) = Returned (logged logger PanicLevel (Log (fn ())) w)
   \<and> logged logger PanicLevel m w = w @ [EntryLogged PanicLevel m]"
proof -
  have "world_of (if IsLevelEnabled logger PanicLevel then logEntry logger PanicLevel m' w
                  else Returned (logger, w)) = Returned (logged logger PanicLevel m' w)" for m'
    using admitted_Returned [of logger PanicLevel m' w] by (auto simp: world_of_def)
  moreover have "IsLevelEnabled logger PanicLevel"
    by (simp add: IsLevelEnabled_def PanicLevel_def)
  ultimately show ?thesis
    unfolding Logger_Panic_def Logger_Panicf_def Logger_Panicln_def Logger_PanicFn_def
    by (simp add: logged_def)
qed

theorem Panic_family_returns_witness:
  "world_of (Logger_Panic (SetLevel New [PanicLevel]) [''out of range''] [])
     = Returned [EntryLogged PanicLevel (Log [''out of range''])]"
  using Panic_family_returns [of "SetLevel New [PanicLevel]" "[''out of range'']" "[]" _ _
      "Log [''out of range'']"]
  by simp

section \<open>The hook: formatting, destinations, fan-out\<close>

lemma Format_rendered:
  "SimpleFormatter_Format env f entry w =
     (case Buffer entry of
        None \<Rightarrow> ((rendered env f entry, None), w)
      | Some a \<Rightarrow> ((buffers w a @ rendered env f entry, None),
                   w\<lparr> buffers := (buffers w)(a := buffers w a @ rendered env f entry) \<rparr>))"
  by (simp add: SimpleFormatter_Format_def rendered_def Let_def split: option.split)

lemma rendered_example_colored:
  "rendered example_env \<lparr> Colored = True \<rparr> example_entry
     = ESC # ''[32;1m[2024-01-02 03:04:05.000] [    info] [ main.go : 42 run ]hello''
       @ ESC # ''[0m\<newline>''"
  by code_simp

lemma rendered_example_plain:
  "rendered example_env \<lparr> Colored = False \<rparr> example_entry
     = ''[2024-01-02 03:04:05.000] [    info] [ main.go : 42 run ]hello\<newline>''"
  by code_simp

lemma Fire_unmapped:
  "mapIndex (writers hook) (Level entry) = None \<Longrightarrow> mapIndex (paths hook) (Level entry) = None
   \<Longrightarrow> \<not> hasDefaultWriter hook \<Longrightarrow> \<not> hasDefaultPath hook
   \<Longrightarrow> Fire env hook entry w = (Return None, w)"
  by (simp add: Fire_def ioWrite_def fileWrite_def)



lemma mapIndex_nil [simp]: "mapIndex None level = None"
  by (simp add: mapIndex_def)




lemma rendered_Buffer: "rendered env f (entry\<lparr> Buffer := b \<rparr>) = rendered env f entry"
  by (simp add: rendered_def split: option.split)

text \<open>
  C4 (amended). \<^verbatim>\<open>SetFormatter\<close>, at construction too, replaces a nil formatter by the default text
  formatter with colours disabled and forces \<^verbatim>\<open>DisableColors\<close> on a \<^verbatim>\<open>*TextFormatter\<close>; a
  formatter of any other type is installed as it is.
\<close>

theorem SetFormatter_installs:
  "formatter (SetFormatter hook f) =
     (case f of
        NilFormatter \<Rightarrow> TextFormatterPtr \<lparr> DisableColors = True \<rparr>
      | TextFormatterPtr t \<Rightarrow> TextFormatterPtr (t\<lparr> DisableColors := True \<rparr>)
      | _ \<Rightarrow> f)
   \<and> (NewLocalFileSystemHook out f = Return hook'
        \<longrightarrow> formatter hook' = formatter (SetFormatter hook f))"
  by (cases f; cases out)
     (auto simp: SetFormatter_def NewLocalFileSystemHook_def defaultFormatter_def
        SetDefaultPath_def SetDefaultWriter_def Let_def)

theorem SetFormatter_installs_witness:
  "NewLocalFileSystemHook (OutString ''/var/log/app.log'') (TextFormatterPtr \<lparr> DisableColors = False \<rparr>)
     = Return \<lparr> paths = None, writers = None, levels = [],
                formatter = TextFormatterPtr \<lparr> DisableColors = True \<rparr>,
                defaultPath = ''/var/log/app.log'', defaultWriter = NilWriter,
                hasDefaultPath = True, hasDefaultWriter = False \<rparr>
   \<and> formatter \<lparr> paths = None, writers = None, levels = [],
                formatter = TextFormatterPtr \<lparr> DisableColors = True \<rparr>,
                defaultPath = ''/var/log/app.log'', defaultWriter = NilWriter,
                hasDefaultPath = True, hasDefaultWriter = False \<rparr>
       = TextFormatterPtr \<lparr> DisableColors = True \<rparr>"
proof -
  let ?h = "\<lparr> paths = None, writers = None, levels = [],
             formatter = TextFormatterPtr \<lparr> DisableColors = True \<rparr>,
             defaultPath = ''/var/log/app.log'', defaultWriter = NilWriter,
             hasDefaultPath = True, hasDefaultWriter = False \<rparr>"
  have c: "NewLocalFileSystemHook (OutString ''/var/log/app.log'')
             (TextFormatterPtr \<lparr> DisableColors = False \<rparr>) = Return ?h"
    by (simp add: NewLocalFileSystemHook_def SetFormatter_def SetDefaultPath_def)
  show ?thesis
    using c SetFormatter_installs [of ?h "TextFormatterPtr \<lparr> DisableColors = False \<rparr>"
        "OutString ''/var/log/app.log''" ?h]
    by simp
qed

text \<open>
  C4 as stated fails: a \<^verbatim>\<open>SimpleFormatter\<close> with \<^verbatim>\<open>Colored\<close> set is installed unchanged, and the
  hook writes its escape codes to the destination.
\<close>

theorem SetFormatter_colored_counterexample:
  "NewLocalFileSystemHook (OutWriter (Sink 0)) (SimpleFormatterPtr \<lparr> Colored = True \<rparr>)
     = Return \<lparr> paths = None, writers = None, levels = [],
                formatter = SimpleFormatterPtr \<lparr> Colored = True \<rparr>,
                defaultPath = [], defaultWriter = Sink 0,
                hasDefaultPath = False, hasDefaultWriter = True \<rparr>
   \<and> Fire example_env
        \<lparr> paths = None, writers = None, levels = [],
          formatter = SimpleFormatterPtr \<lparr> Colored = True \<rparr>,
          defaultPath = [], defaultWriter = Sink 0,
          hasDefaultPath = False, hasDefaultWriter = True \<rparr>
        example_entry empty_world
     = (Return None,
        empty_world\<lparr> io_trace :=
          [WriterWrite 0
             (ESC # ''[32;1m[2024-01-02 03:04:05.000] [    info] [ main.go : 42 run ]hello''
              @ ESC # ''[0m\<newline>'')] \<rparr>)"
proof (rule conjI)
  show "NewLocalFileSystemHook (OutWriter (Sink 0)) (SimpleFormatterPtr \<lparr> Colored = True \<rparr>)
     = Return \<lparr> paths = None, writers = None, levels = [],
                formatter = SimpleFormatterPtr \<lparr> Colored = True \<rparr>,
                defaultPath = [], defaultWriter = Sink 0,
                hasDefaultPath = False, hasDefaultWriter = True \<rparr>"
    by (simp add: NewLocalFileSystemHook_def SetFormatter_def SetDefaultWriter_def)
next
  have "Buffer example_entry = None"
    by (simp add: example_entry_def)
  then have "SimpleFormatter_Format example_env \<lparr> Colored = True \<rparr> example_entry empty_world
     = ((ESC # ''[32;1m[2024-01-02 03:04:05.000] [    info] [ main.go : 42 run ]hello''
         @ ESC # ''[0m\<newline>'', None), empty_world)"
    by (simp add: Format_rendered rendered_example_colored)
  then show "Fire example_env
        \<lparr> paths = None, writers = None, levels = [],
          formatter = SimpleFormatterPtr \<lparr> Colored = True \<rparr>,
          defaultPath = [], defaultWriter = Sink 0,
          hasDefaultPath = False, hasDefaultWriter = True \<rparr>
        example_entry empty_world
     = (Return None,
        empty_world\<lparr> io_trace :=
          [WriterWrite 0
             (ESC # ''[32;1m[2024-01-02 03:04:05.000] [    info] [ main.go : 42 run ]hello''
              @ ESC # ''[0m\<newline>'')] \<rparr>)"
    by (simp add: Fire_def ioWrite_def Formatter_Format_def example_env_def empty_world_def)
qed

text \<open>
  C7. The constructor returns a hook exactly when its output argument is a string, a writer,
  a \<^verbatim>\<open>PathMap\<close> or a \<^verbatim>\<open>WriterMap\<close>; for a value of any other type it panics, with a message
  naming the type, before any hook exists.
\<close>

theorem NewLocalFileSystemHook_accepts:
  "((\<exists>hook. NewLocalFileSystemHook out f = Return hook) \<longleftrightarrow>
      (\<exists>s. out = OutString s) \<or> (\<exists>writer. out = OutWriter writer)
      \<or> (\<exists>m. out = OutPathMap m) \<or> (\<exists>m. out = OutWriterMap m))
   \<and> ((\<exists>msg. NewLocalFileSystemHook out f = Panic msg) \<longleftrightarrow> (\<exists>ty. out = OutOther ty))
   \<and> NewLocalFileSystemHook (OutOther ty) f = Panic (''unsupported level map type: '' @ ty)"
  by (cases out) (simp_all add: NewLocalFileSystemHook_def Let_def)

theorem NewLocalFileSystemHook_accepts_witness:
  "NewLocalFileSystemHook (OutOther ''int'') NilFormatter = Panic ''unsupported level map type: int''
   \<and> (\<exists>hook. NewLocalFileSystemHook (OutString ''/var/log/app.log'') NilFormatter = Return hook)"
  using NewLocalFileSystemHook_accepts [of "OutString ''/var/log/app.log''" NilFormatter "''int''"]
        NewLocalFileSystemHook_accepts [of "OutOther ''int''" NilFormatter "''int''"]
  by simp

text \<open>
  C9 (amended). For an entry with no buffer attached, every one of any number of successive
  calls of \<^verbatim>\<open>Format\<close> returns the same bytes, the rendered record, and leaves the world as it
  was. With a buffer attached, a call returns what the buffer held followed by the rendered
  record, and leaves that in the buffer.
\<close>

theorem Format_repeatable:
  "(Buffer entry = None
      \<longrightarrow> Format_times n env f entry w = (replicate n (rendered env f entry), w))
   \<and> (Buffer entry = Some a
      \<longrightarrow> SimpleFormatter_Format env f entry w
          = ((buffers w a @ rendered env f entry, None),
             w\<lparr> buffers := (buffers w)(a := buffers w a @ rendered env f entry) \<rparr>))"
proof (intro conjI impI)
  assume "Buffer entry = None"
  then show "Format_times n env f entry w = (replicate n (rendered env f entry), w)"
    by (induction n) (simp_all add: Format_rendered)
next
  assume "Buffer entry = Some a"
  then show "SimpleFormatter_Format env f entry w
          = ((buffers w a @ rendered env f entry, None),
             w\<lparr> buffers := (buffers w)(a := buffers w a @ rendered env f entry) \<rparr>)"
    by (simp add: Format_rendered)
qed

theorem Format_repeatable_witness:
  "Buffer example_entry = None
   \<and> Format_times 3 example_env \<lparr> Colored = False \<rparr> example_entry empty_world
       = ([''[2024-01-02 03:04:05.000] [    info] [ main.go : 42 run ]hello\<newline>'',
           ''[2024-01-02 03:04:05.000] [    info] [ main.go : 42 run ]hello\<newline>'',
           ''[2024-01-02 03:04:05.000] [    info] [ main.go : 42 run ]hello\<newline>''],
          empty_world)"
proof -
  have b: "Buffer example_entry = None"
    by (simp add: example_entry_def)
  have "replicate 3 x = [x, x, x]" for x :: string
    by (simp add: numeral_3_eq_3)
  then show ?thesis
    using b Format_repeatable [of example_entry 3 example_env "\<lparr> Colored = False \<rparr>" empty_world]
    by (simp add: rendered_example_plain)
qed

text \<open>
  C9 as stated fails: with a buffer attached to the entry, the second call returns the record
  twice.
\<close>

theorem Format_buffer_counterexample:
  "fst (Format_times 2 example_env \<lparr> Colored = False \<rparr> (example_entry\<lparr> Buffer := Some 0 \<rparr>)
          empty_world)
     = [''[2024-01-02 03:04:05.000] [    info] [ main.go : 42 run ]hello\<newline>'',
        ''[2024-01-02 03:04:05.000] [    info] [ main.go : 42 run ]hello\<newline>''
        @ ''[2024-01-02 03:04:05.000] [    info] [ main.go : 42 run ]hello\<newline>'']"
proof -
  have r: "rendered example_env \<lparr> Colored = False \<rparr> (example_entry\<lparr> Buffer := Some 0 \<rparr>)
             = ''[2024-01-02 03:04:05.000] [    info] [ main.go : 42 run ]hello\<newline>''"
    by (simp add: rendered_Buffer rendered_example_plain)
  have "Format_times 2 env f entry w = Format_times (Suc (Suc 0)) env f entry w" for env f entry w
    by (simp add: numeral_2_eq_2)
  then show ?thesis
    by (simp add: Format_rendered r empty_world_def)
qed

lemma pair_Write:
  "Writer_Write env (multiWriter [Sink k, Sink c]) p w =
     (let r1 = writer_Write env (io_trace w) k p;
          w2 = record_io w [WriterWrite k p]
      in if snd r1 \<noteq> None then (Return r1, w2)
         else if fst r1 \<noteq> length p then (Return (fst r1, Some ErrShortWrite), w2)
         else
           let r2 = writer_Write env (io_trace w2) c p;
               w3 = record_io w2 [WriterWrite c p]
           in if snd r2 \<noteq> None then (Return r2, w3)
              else if fst r2 \<noteq> length p then (Return (fst r2, Some ErrShortWrite), w3)
              else (Return (length p, None), w3))"
  by (cases "writer_Write env (io_trace w) k p";
      cases "writer_Write env (io_trace w @ [WriterWrite k p]) c p")
     (auto simp: record_io_def Let_def)

lemma Config_hook:
  "ConfigLocalFileSystemLogger (Sink d) (Sink i) (Sink wn) (Sink e) (Sink c) =
     Return \<lparr> paths = None,
              writers = Some [(DebugLevel, multiWriter [Sink d, Sink c]),
                              (InfoLevel, multiWriter [Sink i, Sink c]),
                              (WarnLevel, multiWriter [Sink wn, Sink c]),
                              (ErrorLevel, multiWriter [Sink e, Sink c]),
                              (FatalLevel, multiWriter [Sink e, Sink c]),
                              (PanicLevel, multiWriter [Sink e, Sink c])],
              levels = [DebugLevel, InfoLevel, WarnLevel, ErrorLevel, FatalLevel, PanicLevel],
              formatter = SimpleFormatterPtr \<lparr> Colored = False \<rparr>,
              defaultPath = [], defaultWriter = NilWriter,
              hasDefaultPath = False, hasDefaultWriter = False \<rparr>"
  by (simp add: ConfigLocalFileSystemLogger_def NewLocalFileSystemHook_def SetFormatter_def
      io_MultiWriter_def mapKeys_def Level_defs Let_def)

lemma Config_Fire:
  assumes "ConfigLocalFileSystemLogger (Sink d) (Sink i) (Sink wn) (Sink e) (Sink c) = Return hook"
    and "map_of [(DebugLevel, d), (InfoLevel, i), (WarnLevel, wn), (ErrorLevel, e),
                 (FatalLevel, e), (PanicLevel, e)] (Level entry) = Some k"
    and "SimpleFormatter_Format env \<lparr> Colored = False \<rparr> entry w = ((msg, None), w1)"
  shows "Fire env hook entry w =
           (case Writer_Write env (multiWriter [Sink k, Sink c]) msg w1 of
              (Panic s, w2) \<Rightarrow> (Panic s, w2)
            | (Return (n, err), w2) \<Rightarrow> (Return err, w2))"
proof -
  have "mapIndex (writers hook) (Level entry) = Some (multiWriter [Sink k, Sink c])"
    using assms(1,2) unfolding Config_hook by (auto simp: mapIndex_def split: if_splits)
  moreover have "writers hook \<noteq> None" and "formatter hook = SimpleFormatterPtr \<lparr> Colored = False \<rparr>"
    using assms(1) unfolding Config_hook by auto
  ultimately show ?thesis
    using assms(3) by (simp add: Fire_def ioWrite_def Formatter_Format_def)
qed

text \<open>
  C5 (amended). In the hook that \<^verbatim>\<open>ConfigLocalFileSystemLogger\<close> builds, an entry at a mapped
  level is formatted once and the bytes are written to the writer of the level (the shared
  error writer for Error, Fatal and Panic) and then to the common writer. If the first write
  returns an error or is short, that error is returned and the common writer is not
  attempted; otherwise the common writer receives the same bytes and its error, if any, is
  returned.
\<close>

theorem fan_out_stops_at_first_error:
  assumes "ConfigLocalFileSystemLogger (Sink d) (Sink i) (Sink wn) (Sink e) (Sink c) = Return hook"
    and "map_of [(DebugLevel, d), (InfoLevel, i), (WarnLevel, wn), (ErrorLevel, e),
                 (FatalLevel, e), (PanicLevel, e)] (Level entry) = Some k"
    and "SimpleFormatter_Format env \<lparr> Colored = False \<rparr> entry w = ((msg, None), w1)"
  shows "Fire env hook entry w =
           (let r1 = writer_Write env (io_trace w1) k msg;
                w2 = record_io w1 [WriterWrite k msg]
            in if snd r1 \<noteq> None then (Return (snd r1), w2)
               else if fst r1 \<noteq> length msg then (Return (Some ErrShortWrite), w2)
               else
                 let r2 = writer_Write env (io_trace w2) c msg;
                     w3 = record_io w2 [WriterWrite c msg]
                 in (Return (if snd r2 \<noteq> None then snd r2
                             else if fst r2 \<noteq> length msg then Some ErrShortWrite
                             else None), w3))"
  unfolding Config_Fire [OF assms] pair_Write
  by (cases "writer_Write env (io_trace w1) k msg";
      cases "writer_Write env (io_trace w1 @ [WriterWrite k msg]) c msg")
     (auto simp: Let_def record_io_def)

lemma rendered_example_error:
  "rendered example_env \<lparr> Colored = False \<rparr> (example_entry\<lparr> Level := ErrorLevel \<rparr>)
     = ''[2024-01-02 03:04:05.000] [   error] [ main.go : 42 run ]hello\<newline>''"
  by code_simp

lemma rendered_failing_env: "rendered failing_env f entry = rendered example_env f entry"
  by (simp add: rendered_def failing_env_def split: option.split)

theorem fan_out_stops_at_first_error_witness:
  "Fire example_env example_config_hook (example_entry\<lparr> Level := ErrorLevel \<rparr>) empty_world
     = (Return None,
        empty_world\<lparr> io_trace :=
          [WriterWrite 3 ''[2024-01-02 03:04:05.000] [   error] [ main.go : 42 run ]hello\<newline>'',
           WriterWrite 4 ''[2024-01-02 03:04:05.000] [   error] [ main.go : 42 run ]hello\<newline>''] \<rparr>)"
proof -
  let ?e = "example_entry\<lparr> Level := ErrorLevel \<rparr>"
  let ?msg = "''[2024-01-02 03:04:05.000] [   error] [ main.go : 42 run ]hello\<newline>''"
  have a: "ConfigLocalFileSystemLogger (Sink 0) (Sink 1) (Sink 2) (Sink 3) (Sink 4)
             = Return example_config_hook"
    by (simp add: Config_hook example_config_hook_def)
  have b: "map_of [(DebugLevel, 0), (InfoLevel, 1), (WarnLevel, 2), (ErrorLevel, 3),
                   (FatalLevel, 3), (PanicLevel, 3)] (Level ?e) = Some (3::nat)"
    by (simp add: Level_defs)
  have "Buffer ?e = None"
    by (simp add: example_entry_def)
  then have c: "SimpleFormatter_Format example_env \<lparr> Colored = False \<rparr> ?e empty_world
             = ((?msg, None), empty_world)"
    by (simp add: Format_rendered rendered_example_error)
  show ?thesis
    using fan_out_stops_at_first_error [OF a b c]
    by (simp add: example_env_def empty_world_def record_io_def Let_def)
qed

text \<open>
  C5 as stated fails: when the write on the shared error writer fails, the error is returned
  and the common writer is not attempted.
\<close>

theorem fan_out_counterexample:
  "ConfigLocalFileSystemLogger (Sink 0) (Sink 1) (Sink 2) (Sink 3) (Sink 4)
     = Return example_config_hook
   \<and> Fire failing_env example_config_hook (example_entry\<lparr> Level := ErrorLevel \<rparr>) empty_world
     = (Return (Some (Err ''disk full'')),
        empty_world\<lparr> io_trace :=
          [WriterWrite 3 ''[2024-01-02 03:04:05.000] [   error] [ main.go : 42 run ]hello\<newline>''] \<rparr>)"
proof -
  let ?e = "example_entry\<lparr> Level := ErrorLevel \<rparr>"
  let ?msg = "''[2024-01-02 03:04:05.000] [   error] [ main.go : 42 run ]hello\<newline>''"
  have a: "ConfigLocalFileSystemLogger (Sink 0) (Sink 1) (Sink 2) (Sink 3) (Sink 4)
             = Return example_config_hook"
    by (simp add: Config_hook example_config_hook_def)
  have b: "map_of [(DebugLevel, 0), (InfoLevel, 1), (WarnLevel, 2), (ErrorLevel, 3),
                   (FatalLevel, 3), (PanicLevel, 3)] (Level ?e) = Some (3::nat)"
    by (simp add: Level_defs)
  have "Buffer ?e = None"
    by (simp add: example_entry_def)
  then have c: "SimpleFormatter_Format failing_env \<lparr> Colored = False \<rparr> ?e empty_world
             = ((?msg, None), empty_world)"
    by (simp add: Format_rendered rendered_failing_env rendered_example_error)
  have "Fire failing_env example_config_hook ?e empty_world
     = (Return (Some (Err ''disk full'')), empty_world\<lparr> io_trace := [WriterWrite 3 ?msg] \<rparr>)"
    unfolding Config_Fire [OF a b c] pair_Write
    by (simp add: failing_env_def empty_world_def record_io_def Let_def)
  with a show ?thesis by simp
qed




lemma fold_Add_keeps:
  "hook \<in> set (hooks level)
   \<Longrightarrow> hook \<in> set (fold (\<lambda>l hs. hs(l := hs l @ [hook])) ls hooks level)"
proof (induction ls arbitrary: hooks)
  case Nil
  then show ?case by simp
next
  case (Cons l ls)
  from Cons.prems have "hook \<in> set ((hooks(l := hooks l @ [hook])) level)"
    by simp
  then have "hook \<in> set (fold (\<lambda>l hs. hs(l := hs l @ [hook])) ls
                          (hooks(l := hooks l @ [hook])) level)"
    by (rule Cons.IH)
  then show ?case
    by (simp only: fold.simps comp_apply)
qed

lemma fold_Add_adds:
  "level \<in> set ls \<Longrightarrow> hook \<in> set (fold (\<lambda>l hs. hs(l := hs l @ [hook])) ls hooks level)"
proof (induction ls arbitrary: hooks)
  case Nil
  then show ?case by simp
next
  case (Cons l ls)
  show ?case
  proof (cases "level = l")
    case True
    then have "hook \<in> set ((hooks(l := hooks l @ [hook])) level)"
      by simp
    then have "hook \<in> set (fold (\<lambda>l hs. hs(l := hs l @ [hook])) ls
                            (hooks(l := hooks l @ [hook])) level)"
      by (rule fold_Add_keeps)
    then show ?thesis
      by (simp only: fold.simps comp_apply)
  next
    case False
    with Cons.prems have "level \<in> set ls"
      by simp
    then have "hook \<in> set (fold (\<lambda>l hs. hs(l := hs l @ [hook])) ls
                            (hooks(l := hooks l @ [hook])) level)"
      by (rule Cons.IH)
    then show ?thesis
      by (simp only: fold.simps comp_apply)
  qed
qed

text \<open>
  C10. \<^verbatim>\<open>Levels()\<close> returns \<^verbatim>\<open>AllLevels\<close>, the seven levels, for every hook, whatever the
  constructor was given and whatever levels it mapped; adding the hook to a registry
  therefore registers it for every level, and an entry at a level with no destination is
  dropped only inside \<open>Fire\<close>.
\<close>

theorem Levels_is_AllLevels:
  "Levels hook = AllLevels
   \<and> (NewLocalFileSystemHook out f = Return hook' \<longrightarrow> Levels hook' = AllLevels)
   \<and> set AllLevels
       = {PanicLevel, FatalLevel, ErrorLevel, WarnLevel, InfoLevel, DebugLevel, TraceLevel}
   \<and> (\<forall>level \<in> set AllLevels. hook \<in> set (LevelHooks_Add hooks hook level))
   \<and> (mapIndex (writers hook) (Level entry) = None \<longrightarrow> mapIndex (paths hook) (Level entry) = None
        \<longrightarrow> \<not> hasDefaultWriter hook \<longrightarrow> \<not> hasDefaultPath hook
        \<longrightarrow> Fire env hook entry w = (Return None, w))"
proof -
  have "\<forall>level \<in> set AllLevels. hook \<in> set (LevelHooks_Add hooks hook level)"
    by (simp add: LevelHooks_Add_def Levels_def fold_Add_adds)
  moreover have "set AllLevels
       = {PanicLevel, FatalLevel, ErrorLevel, WarnLevel, InfoLevel, DebugLevel, TraceLevel}"
    by (simp add: AllLevels_def)
  ultimately show ?thesis
    using Fire_unmapped [of hook entry env w] by (simp add: Levels_def)
qed

theorem Levels_is_AllLevels_witness:
  "NewLocalFileSystemHook (OutPathMap (Some [(InfoLevel, ''/var/log/info.log'')]))
       (SimpleFormatterPtr \<lparr> Colored = False \<rparr>) = Return info_path_hook
   \<and> levels info_path_hook = [InfoLevel]
   \<and> Levels info_path_hook
       = [PanicLevel, FatalLevel, ErrorLevel, WarnLevel, InfoLevel, DebugLevel, TraceLevel]
   \<and> TraceLevel \<in> set AllLevels
   \<and> info_path_hook \<in> set (LevelHooks_Add (\<lambda>level. []) info_path_hook TraceLevel)"
proof -
  have new: "NewLocalFileSystemHook (OutPathMap (Some [(InfoLevel, ''/var/log/info.log'')]))
               (SimpleFormatterPtr \<lparr> Colored = False \<rparr>) = Return info_path_hook"
    by (simp add: NewLocalFileSystemHook_def SetFormatter_def mapKeys_def info_path_hook_def)
  have t: "TraceLevel \<in> set AllLevels"
    by (simp add: AllLevels_def)
  have l: "levels info_path_hook = [InfoLevel]"
    by (simp add: info_path_hook_def)
  show ?thesis
    using new t l
      Levels_is_AllLevels [of info_path_hook "OutPathMap (Some [(InfoLevel, ''/var/log/info.log'')])"
        "SimpleFormatterPtr \<lparr> Colored = False \<rparr>" info_path_hook "\<lambda>level. []"]
    by (simp add: AllLevels_def)
qed

end
